theory Spec2Isabelle
  imports Complex_Main
begin

section \<open>Vietnamese Gross-to-Net payroll calculator (frontend/app.py)\<close>

text \<open>
  The embedding follows \<^verbatim>\<open>src/frontend/app.py\<close>. Money amounts are Python \<^verbatim>\<open>float\<close>s in
  the source; they are modelled as exact real numbers (\<^typ>\<open>real\<close>): the integer
  constants of the tables are embedded with \<^term>\<open>of_int\<close>, and the rates \<^verbatim>\<open>0.08\<close>,
  \<^verbatim>\<open>0.015\<close>, \<^verbatim>\<open>0.01\<close>, ... are the decimal fractions they denote. The binary64
  rounding error of the individual operations and the non-finite floats (\<^verbatim>\<open>inf\<close>,
  \<^verbatim>\<open>nan\<close>) are not part of this model. Python \<^verbatim>\<open>int\<close>s are \<^typ>\<open>int\<close>.
\<close>

subsection \<open>Data model\<close>

text \<open>\<^verbatim>\<open>class GrossNetInput(BaseModel)\<close>, lines 10--14.\<close>

record GrossNetInput =
  gross_income :: real
  num_dependents :: int
  region :: int

text \<open>
  \<^verbatim>\<open>class InsuranceBreakdown(BaseModel)\<close>, lines 33--38. The fields are declared
  \<^verbatim>\<open>float\<close> but are only ever filled with the results of \<^verbatim>\<open>round\<close>, which are Python
  integers; they are kept as \<^typ>\<open>int\<close>.
\<close>

record InsuranceBreakdown =
  social_insurance :: int
  health_insurance :: int
  unemployment_insurance :: int
  total :: int

text \<open>
  \<^verbatim>\<open>class GrossNetResult(BaseModel)\<close>, lines 40--48. The result's own
  \<^verbatim>\<open>gross_income\<close> field is called \<open>gross_income_out\<close> here, since the input record
  already has a field of that name.
\<close>

record GrossNetResult =
  gross_income_out :: int
  net_income :: int
  personal_income_tax :: int
  total_insurance_contribution :: int
  insurance_breakdown :: InsuranceBreakdown
  taxable_income :: int
  pre_tax_income :: int

text \<open>
  The exceptions that can leave the code under study. \<open>InvalidRegion r\<close> is the
  \<^verbatim>\<open>ValueError(f"Invalid region: {region}. Must be 1, 2, 3, or 4.")\<close> of line 98;
  \<open>InvalidRow\<close> is the \<^verbatim>\<open>ValueError("Invalid input value(s) in row.")\<close> of line 347;
  \<open>NaNToInt\<close> is the \<^verbatim>\<open>ValueError\<close> that \<^verbatim>\<open>int\<close> raises on a NaN;
  \<open>ValidationError m\<close> is pydantic's rejection of a \<^verbatim>\<open>GrossNetInput\<close>, with the
  text \<open>m\<close> the library renders for it.
\<close>

datatype error =
    InvalidRegion int
  | InvalidRow
  | NaNToInt
  | ValidationError string

subsection \<open>Constant tables (lines 50--78)\<close>

definition PERSONAL_ALLOWANCE :: int where
  "PERSONAL_ALLOWANCE = 11000000"

definition DEPENDENT_ALLOWANCE :: int where
  "DEPENDENT_ALLOWANCE = 4400000"

definition RATE_SOCIAL_INSURANCE :: real where
  "RATE_SOCIAL_INSURANCE = 8 / 100"

definition RATE_HEALTH_INSURANCE :: real where
  "RATE_HEALTH_INSURANCE = 15 / 1000"

definition RATE_UNEMPLOYMENT_INSURANCE :: real where
  "RATE_UNEMPLOYMENT_INSURANCE = 1 / 100"

definition BASE_SALARY_FOR_CAPS :: int where
  "BASE_SALARY_FOR_CAPS = 2340000"

definition BHXH_BHYT_CAP_MULTIPLIER :: int where
  "BHXH_BHYT_CAP_MULTIPLIER = 20"

definition BHTN_CAP_MULTIPLIER :: int where
  "BHTN_CAP_MULTIPLIER = 20"

definition BHXH_BHYT_MAX_BASE :: int where
  "BHXH_BHYT_MAX_BASE = BASE_SALARY_FOR_CAPS * BHXH_BHYT_CAP_MULTIPLIER"

definition REGIONAL_MINIMUM_WAGES :: "int \<rightharpoonup> int" where
  "REGIONAL_MINIMUM_WAGES =
     map_of [(1, 4960000), (2, 4410000), (3, 3860000), (4, 3450000)]"

text \<open>
  A bracket limit is a number or \<^verbatim>\<open>float('inf')\<close> (the last bracket).
\<close>

datatype limit = Finite real | Infinity

record bracket =
  limit :: limit
  rate :: real
  deduction :: real

definition PIT_BRACKETS :: "bracket list" where
  "PIT_BRACKETS =
     [\<lparr>limit = Finite 5000000, rate = 5 / 100, deduction = 0\<rparr>,
      \<lparr>limit = Finite 10000000, rate = 10 / 100, deduction = 250000\<rparr>,
      \<lparr>limit = Finite 18000000, rate = 15 / 100, deduction = 750000\<rparr>,
      \<lparr>limit = Finite 32000000, rate = 20 / 100, deduction = 1650000\<rparr>,
      \<lparr>limit = Finite 52000000, rate = 25 / 100, deduction = 3250000\<rparr>,
      \<lparr>limit = Finite 80000000, rate = 30 / 100, deduction = 5850000\<rparr>,
      \<lparr>limit = Infinity, rate = 35 / 100, deduction = 9850000\<rparr>]"

subsection \<open>Python's \<^verbatim>\<open>round\<close> and comparisons with a limit\<close>

text \<open>
  \<^verbatim>\<open>round(x)\<close> with one argument returns the integer nearest to \<open>x\<close>; a value exactly
  half-way between two integers goes to the even one.
\<close>

definition py_round :: "real \<Rightarrow> int" where
  "py_round x =
     (let f = \<lfloor>x\<rfloor>; d = x - of_int f
      in if d < 1 / 2 then f
         else if 1 / 2 < d then f + 1
         else if even f then f else f + 1)"

text \<open>\<^verbatim>\<open>min(taxable_income, bracket["limit"])\<close>: the first argument wins a tie.\<close>

fun min_limit :: "real \<Rightarrow> limit \<Rightarrow> real" where
  "min_limit t (Finite l) = (if l < t then l else t)"
| "min_limit t Infinity = t"

subsection \<open>The calculation (lines 80--153)\<close>

text \<open>
  Each local variable of \<^verbatim>\<open>calculate_gross_to_net\<close> is a definition of its own, as a
  function of the gross income \<open>g\<close>, the number of dependents \<open>n\<close> and the regional
  minimum wage \<open>w\<close> looked up at line 99.
\<close>

definition insurance_base :: "real \<Rightarrow> int \<Rightarrow> real" where
  "insurance_base g w = max g (of_int w)"

definition bhtn_cap :: "int \<Rightarrow> int" where
  "bhtn_cap w = w * BHTN_CAP_MULTIPLIER"

definition salary_base_bhxh_bhyt :: "real \<Rightarrow> int \<Rightarrow> real" where
  "salary_base_bhxh_bhyt g w =
     max (min (insurance_base g w) (of_int BHXH_BHYT_MAX_BASE)) (of_int w)"

definition salary_base_bhtn :: "real \<Rightarrow> int \<Rightarrow> real" where
  "salary_base_bhtn g w =
     max (min (insurance_base g w) (of_int (bhtn_cap w))) (of_int w)"

definition bhxh :: "real \<Rightarrow> int \<Rightarrow> real" where
  "bhxh g w = salary_base_bhxh_bhyt g w * RATE_SOCIAL_INSURANCE"

definition bhyt :: "real \<Rightarrow> int \<Rightarrow> real" where
  "bhyt g w = salary_base_bhxh_bhyt g w * RATE_HEALTH_INSURANCE"

definition bhtn :: "real \<Rightarrow> int \<Rightarrow> real" where
  "bhtn g w = salary_base_bhtn g w * RATE_UNEMPLOYMENT_INSURANCE"

definition total_insurance :: "real \<Rightarrow> int \<Rightarrow> real" where
  "total_insurance g w = bhxh g w + bhyt g w + bhtn g w"

text \<open>Lines 115--120: the \<^verbatim>\<open>InsuranceBreakdown(...)\<close> that is returned.\<close>

definition make_insurance_breakdown :: "real \<Rightarrow> int \<Rightarrow> InsuranceBreakdown" where
  "make_insurance_breakdown g w =
     \<lparr>social_insurance = py_round (bhxh g w),
      health_insurance = py_round (bhyt g w),
      unemployment_insurance = py_round (bhtn g w),
      total = py_round (total_insurance g w)\<rparr>"

text \<open>Line 122; the unrounded local, not the output field.\<close>

definition pre_tax_income_raw :: "real \<Rightarrow> int \<Rightarrow> real" where
  "pre_tax_income_raw g w = g - total_insurance g w"

definition total_allowances :: "int \<Rightarrow> int" where
  "total_allowances n = PERSONAL_ALLOWANCE + n * DEPENDENT_ALLOWANCE"

text \<open>Lines 128--129.\<close>

definition taxable_income_raw :: "real \<Rightarrow> int \<Rightarrow> int \<Rightarrow> real" where
  "taxable_income_raw g n w =
     max 0 (pre_tax_income_raw g w - of_int (total_allowances n))"

text \<open>
  Lines 131--139, the bracket walk: \<open>pit_loop bs t previous_limit pit\<close> runs the
  \<^verbatim>\<open>for\<close> loop over the remaining brackets \<open>bs\<close> from the loop state
  (\<open>previous_limit\<close>, \<open>pit\<close>). The \<^verbatim>\<open>else: break\<close> returns the accumulator. No finite
  amount is greater than \<^verbatim>\<open>inf\<close>, so after a bracket with an infinite limit the
  loop breaks.
\<close>

fun pit_loop :: "bracket list \<Rightarrow> real \<Rightarrow> limit \<Rightarrow> real \<Rightarrow> real" where
  "pit_loop [] t previous_limit pit = pit"
| "pit_loop (b # bs) t Infinity pit = pit"
| "pit_loop (b # bs) t (Finite p) pit =
     (if t > p
      then pit_loop bs t (limit b) (pit + (min_limit t (limit b) - p) * rate b)
      else pit)"

text \<open>The loop from its initial state \<^verbatim>\<open>pit = 0.0\<close>, \<^verbatim>\<open>previous_limit = 0\<close>.\<close>

definition pit_raw :: "real \<Rightarrow> real" where
  "pit_raw t = pit_loop PIT_BRACKETS t (Finite 0) 0"

text \<open>Line 141: \<^verbatim>\<open>pit = max(0, round(pit))\<close>.\<close>

definition pit :: "real \<Rightarrow> int \<Rightarrow> int \<Rightarrow> int" where
  "pit g n w = max 0 (py_round (pit_raw (taxable_income_raw g n w)))"

text \<open>Line 143.\<close>

definition net_income_raw :: "real \<Rightarrow> int \<Rightarrow> int \<Rightarrow> real" where
  "net_income_raw g n w = g - total_insurance g w - of_int (pit g n w)"

text \<open>Lines 145--153: the \<^verbatim>\<open>GrossNetResult(...)\<close> that is returned.\<close>

definition make_result :: "real \<Rightarrow> int \<Rightarrow> int \<Rightarrow> GrossNetResult" where
  "make_result g n w =
     \<lparr>gross_income_out = py_round g,
      net_income = py_round (net_income_raw g n w),
      personal_income_tax = pit g n w,
      total_insurance_contribution = total (make_insurance_breakdown g w),
      insurance_breakdown = make_insurance_breakdown g w,
      taxable_income = py_round (taxable_income_raw g n w),
      pre_tax_income = py_round (pre_tax_income_raw g w)\<rparr>"

text \<open>
  The function itself: the only check is the dictionary lookup of lines 97--99.
\<close>

definition calculate_gross_to_net :: "GrossNetInput \<Rightarrow> error + GrossNetResult" where
  "calculate_gross_to_net data =
     (case REGIONAL_MINIMUM_WAGES (region data) of
        None \<Rightarrow> Inl (InvalidRegion (region data))
      | Some regional_min_wage \<Rightarrow>
          Inr (make_result (gross_income data) (num_dependents data) regional_min_wage))"

text \<open>
  The constraints pydantic enforces when a \<^verbatim>\<open>GrossNetInput\<close> is built (lines 12--14:
  \<^verbatim>\<open>gt=0\<close>, \<^verbatim>\<open>ge=0\<close>, \<^verbatim>\<open>ge=1, le=4\<close>): the valid inputs.
\<close>

definition valid_input :: "GrossNetInput \<Rightarrow> bool" where
  "valid_input data \<longleftrightarrow>
     0 < gross_income data \<and> 0 \<le> num_dependents data \<and> region data \<in> {1, 2, 3, 4}"

text \<open>
  The first example of \<^verbatim>\<open>model_config\<close> (line 22): 30M VND gross, one dependent,
  region 1.
\<close>

definition basic_example :: GrossNetInput where
  "basic_example = \<lparr>gross_income = 30000000, num_dependents = 1, region = 1\<rparr>"

text \<open>
  The sum of the three components an \<^verbatim>\<open>InsuranceBreakdown\<close> stores, to compare with its
  \<^verbatim>\<open>total\<close>.
\<close>

definition components_sum :: "InsuranceBreakdown \<Rightarrow> int" where
  "components_sum b = social_insurance b + health_insurance b + unemployment_insurance b"

subsection \<open>Notions the properties are stated with\<close>

text \<open>
  A bracket table is walked correctly from \<open>previous_limit\<close> when its rates are not
  negative and its limits do not decrease (up to a bracket with an infinite limit, where
  the loop stops).
\<close>

fun ascending :: "limit \<Rightarrow> bracket list \<Rightarrow> bool" where
  "ascending p [] = True"
| "ascending Infinity (b # bs) = True"
| "ascending (Finite p) (b # bs) =
     (0 \<le> rate b \<and> (case limit b of Finite l \<Rightarrow> p \<le> l | Infinity \<Rightarrow> True) \<and>
      ascending (limit b) bs)"

text \<open>
  The closed form the spec gives for the tax, following the spec's words and not the code
  (the code never reads \<^verbatim>\<open>bracket["deduction"]\<close>): find the first bracket whose limit is
  at least the taxable income, and compute \<open>taxable_income \<times> rate - deduction\<close> with
  that bracket's constants.
\<close>

fun le_limit :: "real \<Rightarrow> limit \<Rightarrow> bool" where
  "le_limit t (Finite l) = (t \<le> l)"
| "le_limit t Infinity = True"

definition spec_closed_form_pit :: "bracket list \<Rightarrow> real \<Rightarrow> real option" where
  "spec_closed_form_pit bs t =
     (case find (\<lambda>b. le_limit t (limit b)) bs of
        None \<Rightarrow> None
      | Some b \<Rightarrow> Some (t * rate b - deduction b))"

text \<open>
  \<open>rounds_half_even u f\<close>: the integer \<open>f\<close> is the rounding of \<open>u\<close> to the nearest
  integer, a tie going to the even neighbour.
\<close>

definition rounds_half_even :: "real \<Rightarrow> int \<Rightarrow> bool" where
  "rounds_half_even u f \<longleftrightarrow>
     \<bar>of_int f - u\<bar> \<le> 1 / 2 \<and> (\<bar>of_int f - u\<bar> < 1 / 2 \<or> even f)"

subsection \<open>Batch upload (lines 315--384)\<close>

text \<open>
  A cell of the uploaded sheet as pandas hands it to the loop: a number (\<^verbatim>\<open>int64\<close> or
  \<^verbatim>\<open>float64\<close>), or NaN for an empty cell. Text cells are not modelled. A row gives the
  cell under each column name; the data frame is its column names and its rows.
\<close>

datatype cell = Num real | NaN

type_synonym row = "string \<Rightarrow> cell"

record table =
  columns :: "string list"
  rows :: "row list"

text \<open>
  Lines 155--159.
\<close>

definition EXPECTED_COLUMNS :: "(string \<times> string) list" where
  "EXPECTED_COLUMNS =
     [(''gross'', ''GrossIncome''), (''dependents'', ''Dependents''), (''region'', ''Region'')]"

text \<open>
  \<^verbatim>\<open>result_data\<close>, the dictionary over \<^verbatim>\<open>OUTPUT_COLUMNS\<close> (lines 160--163, 339); a value
  that is still \<^verbatim>\<open>None\<close> is \<open>None\<close>.
\<close>

record result_data =
  NetIncome :: "int option"
  PIT :: "int option"
  TotalInsurance :: "int option"
  TaxableIncome :: "int option"
  PreTaxIncome :: "int option"
  BHXH :: "int option"
  BHYT :: "int option"
  BHTN :: "int option"
  CalculationStatus :: string
  ErrorMessage :: string

text \<open>
  \<^verbatim>\<open>int(x)\<close> on a number truncates towards zero and raises \<^verbatim>\<open>ValueError\<close> on NaN.
  \<^verbatim>\<open>float(x)\<close> returns the cell as it is. \<open>le_zero\<close> is \<^verbatim>\<open>gross <= 0\<close>, false for NaN.
\<close>

fun py_int :: "cell \<Rightarrow> error + int" where
  "py_int (Num x) = Inr (if 0 \<le> x then \<lfloor>x\<rfloor> else \<lceil>x\<rceil>)"
| "py_int NaN = Inl NaNToInt"

fun le_zero :: "cell \<Rightarrow> bool" where
  "le_zero (Num x) = (x \<le> 0)"
| "le_zero NaN = False"

text \<open>
  The decimal text of an integer, as an f-string renders it.
\<close>

fun show_nat :: "nat \<Rightarrow> string" where
  "show_nat n =
     (if n < 10 then [''0123456789'' ! n]
      else show_nat (n div 10) @ [''0123456789'' ! (n mod 10)])"

definition show_int :: "int \<Rightarrow> string" where
  "show_int i = (if i < 0 then ''-'' @ show_nat (nat (- i)) else show_nat (nat i))"

text \<open>
  \<^verbatim>\<open>type(e).__name__\<close> and \<^verbatim>\<open>str(e)\<close> of the exceptions.
\<close>

fun exc_name :: "error \<Rightarrow> string" where
  "exc_name (ValidationError m) = ''ValidationError''"
| "exc_name e = ''ValueError''"

fun exc_text :: "error \<Rightarrow> string" where
  "exc_text (InvalidRegion r) = ''Invalid region: '' @ show_int r @ ''. Must be 1, 2, 3, or 4.''"
| "exc_text InvalidRow = ''Invalid input value(s) in row.''"
| "exc_text NaNToInt = ''cannot convert float NaN to integer''"
| "exc_text (ValidationError m) = m"

text \<open>
  \<^verbatim>\<open>s.split(':')[-1]\<close> is the text after the last colon, the whole text when there is
  none; \<^verbatim>\<open>strip()\<close> removes the white space at both ends (the ASCII characters Python
  counts as white space).
\<close>

definition last_segment :: "string \<Rightarrow> string" where
  "last_segment s = rev (takeWhile (\<lambda>c. c \<noteq> CHR '':'') (rev s))"

definition is_space :: "char \<Rightarrow> bool" where
  "is_space c \<longleftrightarrow> c \<in> set [CHR 0x20, CHR 0x09, CHR 0x0A, CHR 0x0B, CHR 0x0C, CHR 0x0D,
                               CHR 0x1C, CHR 0x1D, CHR 0x1E, CHR 0x1F]"

definition strip :: "string \<Rightarrow> string" where
  "strip s = rev (dropWhile is_space (rev (dropWhile is_space s)))"

text \<open>
  The body of the \<^verbatim>\<open>try\<close> (lines 342--354) up to the result of the calculation. A NaN
  gross income passes the check of line 346, since \<^verbatim>\<open>nan <= 0\<close> is false, and is stopped
  further on: by pydantic where it rejects NaN for \<^verbatim>\<open>gt=0\<close>, by \<^verbatim>\<open>round\<close> otherwise.
  Which of the two depends on the library, so the exception is the parameter
  \<open>nan_exc\<close>. Any other gross income that passes the check makes a valid
  \<^verbatim>\<open>GrossNetInput\<close>. The loop runs only when no column is missing, and then
  \<^verbatim>\<open>actual_cols_map\<close> sends each key to its expected name, so the cells are read under
  the names of \<open>EXPECTED_COLUMNS\<close>.
\<close>

definition try_row :: "error \<Rightarrow> row \<Rightarrow> error + GrossNetResult" where
  "try_row nan_exc row =
     (let gross = row ''GrossIncome'' in
      case py_int (row ''Dependents'') of
        Inl e \<Rightarrow> Inl e
      | Inr deps \<Rightarrow>
          (case py_int (row ''Region'') of
             Inl e \<Rightarrow> Inl e
           | Inr reg \<Rightarrow>
               if le_zero gross \<or> deps < 0 \<or> reg \<notin> set [1, 2, 3, 4] then Inl InvalidRow
               else (case gross of
                       NaN \<Rightarrow> Inl nan_exc
                     | Num g \<Rightarrow>
                         calculate_gross_to_net
                           \<lparr>gross_income = g, num_dependents = deps, region = reg\<rparr>)))"

text \<open>
  Lines 364--366: all exceptions of the model are \<^verbatim>\<open>ValueError\<close>s, caught by the first handler.
\<close>

definition error_msg :: "int \<Rightarrow> error \<Rightarrow> string" where
  "error_msg index e = ''Row '' @ show_int (index + 2) @ '': '' @ exc_name e @ '' - '' @ exc_text e"

text \<open>
  One iteration of the loop, lines 337--375: the \<^verbatim>\<open>result_data\<close> appended for a row.
\<close>

definition process_row :: "error \<Rightarrow> int \<Rightarrow> row \<Rightarrow> result_data" where
  "process_row nan_exc index row =
     (case try_row nan_exc row of
        Inr result \<Rightarrow>
          \<lparr>NetIncome = Some (net_income result),
           PIT = Some (personal_income_tax result),
           TotalInsurance = Some (total_insurance_contribution result),
           TaxableIncome = Some (taxable_income result),
           PreTaxIncome = Some (pre_tax_income result),
           BHXH = Some (social_insurance (insurance_breakdown result)),
           BHYT = Some (health_insurance (insurance_breakdown result)),
           BHTN = Some (unemployment_insurance (insurance_breakdown result)),
           CalculationStatus = ''Success'',
           ErrorMessage = ''''\<rparr>
      | Inl e \<Rightarrow>
          \<lparr>NetIncome = None, PIT = None, TotalInsurance = None, TaxableIncome = None,
           PreTaxIncome = None, BHXH = None, BHYT = None, BHTN = None,
           CalculationStatus = ''Error'',
           ErrorMessage =
             (if error_msg index e = [] then ''''
              else strip (last_segment (error_msg index e)))\<rparr>)"

text \<open>
  Lines 321--331 and 381--384: a missing column stops the whole batch (\<open>Inl\<close>, with the
  missing names); otherwise every row is processed in order, \<^verbatim>\<open>index\<close> counting from 0,
  and the output pairs the three input cells of a row with its \<^verbatim>\<open>result_data\<close>.
\<close>

definition missing_cols :: "string list \<Rightarrow> string list" where
  "missing_cols cols = filter (\<lambda>expected_name. expected_name \<notin> set cols) (map snd EXPECTED_COLUMNS)"

definition process_batch ::
  "error \<Rightarrow> table \<Rightarrow> string list + ((cell \<times> cell \<times> cell) \<times> result_data) list" where
  "process_batch nan_exc df_input =
     (if missing_cols (columns df_input) \<noteq> [] then Inl (missing_cols (columns df_input))
      else Inr (map (\<lambda>(index, row).
                  ((row ''GrossIncome'', row ''Dependents'', row ''Region''),
                   process_row nan_exc (int index) row))
                (enumerate 0 (rows df_input))))"

text \<open>
  The rows the batch property speaks of: a row whose region, as line 344 reads it, is
  not one of 1, 2, 3, 4 (or cannot be read), and a row whose three values are valid.
\<close>

definition region_outside :: "row \<Rightarrow> bool" where
  "region_outside row \<longleftrightarrow>
     (case py_int (row ''Region'') of Inl e \<Rightarrow> True | Inr reg \<Rightarrow> reg \<notin> {1, 2, 3, 4})"

definition row_valid :: "row \<Rightarrow> bool" where
  "row_valid row \<longleftrightarrow>
     (case row ''GrossIncome'' of NaN \<Rightarrow> False | Num g \<Rightarrow> 0 < g) \<and>
     (case py_int (row ''Dependents'') of Inl e \<Rightarrow> False | Inr n \<Rightarrow> 0 \<le> n) \<and>
     (case py_int (row ''Region'') of Inl e \<Rightarrow> False | Inr reg \<Rightarrow> reg \<in> {1, 2, 3, 4})"

text \<open>
  The example sheet of lines 295--299, with the region of its second row changed to 5.
\<close>

definition example_with_bad_region :: table where
  "example_with_bad_region =
     \<lparr>columns = [''GrossIncome'', ''Dependents'', ''Region''],
      rows = [(\<lambda>c. if c = ''GrossIncome'' then Num 30000000
                    else if c = ''Dependents'' then Num 1 else Num 1),
              (\<lambda>c. if c = ''GrossIncome'' then Num 20000000
                    else if c = ''Dependents'' then Num 0 else Num 5),
              (\<lambda>c. if c = ''GrossIncome'' then Num 50000000
                    else if c = ''Dependents'' then Num 2 else Num 2)]\<rparr>"

section \<open>Properties\<close>

lemmas constant_defs =
  PERSONAL_ALLOWANCE_def DEPENDENT_ALLOWANCE_def RATE_SOCIAL_INSURANCE_def
  RATE_HEALTH_INSURANCE_def RATE_UNEMPLOYMENT_INSURANCE_def BASE_SALARY_FOR_CAPS_def
  BHXH_BHYT_CAP_MULTIPLIER_def BHTN_CAP_MULTIPLIER_def BHXH_BHYT_MAX_BASE_def

lemmas local_defs =
  insurance_base_def bhtn_cap_def salary_base_bhxh_bhyt_def salary_base_bhtn_def
  bhxh_def bhyt_def bhtn_def total_insurance_def pre_tax_income_raw_def
  total_allowances_def taxable_income_raw_def pit_raw_def pit_def net_income_raw_def

lemmas result_defs =
  calculate_gross_to_net_def REGIONAL_MINIMUM_WAGES_def make_result_def
  make_insurance_breakdown_def

subsection \<open>Rounding\<close>

lemma py_round_split:
  obtains f :: int and d :: real where
    "x = of_int f + d" "0 \<le> d" "d < 1"
    "py_round x = (if d < 1 / 2 then f else if 1 / 2 < d then f + 1
                   else if even f then f else f + 1)"
proof -
  define f where "f = \<lfloor>x\<rfloor>"
  define d where "d = x - of_int f"
  have "x = of_int f + d" by (simp add: d_def)
  moreover have "0 \<le> d" "d < 1" unfolding d_def f_def by linarith+
  moreover have "py_round x = (if d < 1 / 2 then f else if 1 / 2 < d then f + 1
                   else if even f then f else f + 1)"
    unfolding py_round_def Let_def d_def f_def by (rule refl)
  ultimately show thesis by (rule that)
qed

lemma py_round_cases: "py_round x = \<lfloor>x\<rfloor> \<or> py_round x = \<lfloor>x\<rfloor> + 1"
  by (simp add: py_round_def Let_def)

lemma py_round_bounds: "\<bar>of_int (py_round x) - x\<bar> \<le> 1 / 2"
proof -
  obtain f :: int and d :: real where
    "x = of_int f + d" "0 \<le> d" "d < 1"
    "py_round x = (if d < 1 / 2 then f else if 1 / 2 < d then f + 1
                   else if even f then f else f + 1)"
    by (rule py_round_split)
  then show ?thesis by (auto simp: abs_if)
qed

lemma py_round_tie_even: "\<bar>of_int (py_round x) - x\<bar> < 1 / 2 \<or> even (py_round x)"
proof -
  obtain f :: int and d :: real where
    "x = of_int f + d" "0 \<le> d" "d < 1"
    "py_round x = (if d < 1 / 2 then f else if 1 / 2 < d then f + 1
                   else if even f then f else f + 1)"
    by (rule py_round_split)
  then show ?thesis by (auto simp: abs_if)
qed

lemma py_round_of_int [simp]: "py_round (of_int k) = k"
  by (simp add: py_round_def)

lemma py_round_zero [simp]: "py_round 0 = 0"
  using py_round_of_int [of 0] by simp

lemma py_round_mono: "x \<le> y \<Longrightarrow> py_round x \<le> py_round y"
proof -
  assume xy: "x \<le> y"
  have fl: "\<lfloor>x\<rfloor> \<le> \<lfloor>y\<rfloor>" using xy by (rule floor_mono)
  show ?thesis
  proof (cases "\<lfloor>x\<rfloor> = \<lfloor>y\<rfloor>")
    case True
    with xy show ?thesis by (auto simp: py_round_def Let_def)
  next
    case False
    with fl have "\<lfloor>x\<rfloor> + 1 \<le> \<lfloor>y\<rfloor>" by simp
    moreover have "py_round x \<le> \<lfloor>x\<rfloor> + 1" using py_round_cases [of x] by auto
    moreover have "\<lfloor>y\<rfloor> \<le> py_round y" using py_round_cases [of y] by auto
    ultimately show ?thesis by linarith
  qed
qed

lemma py_round_nonneg: "0 \<le> x \<Longrightarrow> 0 \<le> py_round x"
  using py_round_mono [of 0 x] by simp

lemma py_round_diff_even:
  assumes "even k"
  shows "py_round (x - of_int k) = py_round x - k"
proof -
  have fl: "\<lfloor>x - of_int k\<rfloor> = \<lfloor>x\<rfloor> - k" by simp
  show ?thesis
    using assms by (simp add: py_round_def Let_def fl)
qed

lemma py_round_max: "py_round (max a b) = max (py_round a) (py_round b)"
  using py_round_mono [of a b] py_round_mono [of b a] by (auto simp: max_def)

subsection \<open>The literal scenario\<close>

text \<open>
  C1 (as the spec states it, refuted). For \<open>gross_income = 30,000,000\<close>,
  \<open>num_dependents = 1\<close>, \<open>region = 1\<close> the spec pins a personal income tax of about
  790,000 and a net income of about 26,060,000, to be matched to the unit. The code
  returns neither figure: the tax is 967,500, which is 177,500 more, and the net income
  is 25,882,500, which is 177,500 less.
\<close>

theorem C1_spec_pit_and_net_counterexample:
  "map_sum id personal_income_tax (calculate_gross_to_net basic_example) \<noteq> Inr 790000 \<and>
   map_sum id net_income (calculate_gross_to_net basic_example) \<noteq> Inr 26060000 \<and>
   map_sum id personal_income_tax (calculate_gross_to_net basic_example) = Inr (790000 + 177500) \<and>
   map_sum id net_income (calculate_gross_to_net basic_example) = Inr (26060000 - 177500)"
  by (simp add: basic_example_def result_defs local_defs constant_defs PIT_BRACKETS_def
      py_round_def)

text \<open>
  C1 (amended). For \<open>gross_income = 30,000,000\<close>, \<open>num_dependents = 1\<close>,
  \<open>region = 1\<close> the regional minimum wage is 4,960,000, the insurance base is
  30,000,000, the total of the allowances is 15,400,000, the bracket walk on the taxable
  income 11,450,000 gives 967,500, and the function returns: social insurance 2,400,000,
  health insurance 450,000, unemployment insurance 300,000, total insurance 3,150,000,
  pre-tax income 26,850,000, taxable income 11,450,000, personal income tax 967,500 and
  net income 25,882,500.
\<close>

theorem C1_basic_example_result:
  "REGIONAL_MINIMUM_WAGES (region basic_example) = Some 4960000 \<and>
   insurance_base (gross_income basic_example) 4960000 = 30000000 \<and>
   total_allowances (num_dependents basic_example) = 15400000 \<and>
   pit_raw 11450000 = 967500 \<and>
   calculate_gross_to_net basic_example =
     Inr \<lparr>gross_income_out = 30000000, net_income = 25882500,
          personal_income_tax = 967500, total_insurance_contribution = 3150000,
          insurance_breakdown =
            \<lparr>social_insurance = 2400000, health_insurance = 450000,
             unemployment_insurance = 300000, total = 3150000\<rparr>,
          taxable_income = 11450000, pre_tax_income = 26850000\<rparr>"
  by (simp add: basic_example_def result_defs local_defs constant_defs PIT_BRACKETS_def
      py_round_def)

subsection \<open>The region lookup and the result\<close>

lemma rmw_Some:
  "REGIONAL_MINIMUM_WAGES r = Some w \<Longrightarrow>
     r \<in> {1, 2, 3, 4} \<and> w \<in> {4960000, 4410000, 3860000, 3450000}"
  by (auto simp: REGIONAL_MINIMUM_WAGES_def split: if_splits)

lemma rmw_valid: "r \<in> {1, 2, 3, 4} \<Longrightarrow> \<exists>w. REGIONAL_MINIMUM_WAGES r = Some w"
  by (auto simp: REGIONAL_MINIMUM_WAGES_def)

lemma rmw_invalid: "r \<notin> {1, 2, 3, 4} \<Longrightarrow> REGIONAL_MINIMUM_WAGES r = None"
  by (auto simp: REGIONAL_MINIMUM_WAGES_def)

lemma rmw_pos: "REGIONAL_MINIMUM_WAGES r = Some w \<Longrightarrow> 0 < w"
  by (drule rmw_Some) auto

lemma calc_Inr:
  "REGIONAL_MINIMUM_WAGES (region d) = Some w \<Longrightarrow>
     calculate_gross_to_net d = Inr (make_result (gross_income d) (num_dependents d) w)"
  by (simp add: calculate_gross_to_net_def)

lemma calc_Inl:
  "REGIONAL_MINIMUM_WAGES (region d) = None \<Longrightarrow>
     calculate_gross_to_net d = Inl (InvalidRegion (region d))"
  by (simp add: calculate_gross_to_net_def)

lemma valid_input_rmw:
  "valid_input d \<Longrightarrow> \<exists>w. REGIONAL_MINIMUM_WAGES (region d) = Some w"
  by (simp add: valid_input_def rmw_valid)

lemma py_round_lower: "x - 1 / 2 \<le> real_of_int (py_round x)"
  using py_round_bounds [of x] by linarith

lemma py_round_upper: "real_of_int (py_round x) \<le> x + 1 / 2"
  using py_round_bounds [of x] by linarith

lemma int_abs_le_from_real:
  fixes k :: int
  assumes "- (real_of_int m + 1) < real_of_int k" "real_of_int k < real_of_int m + 1"
  shows "\<bar>k\<bar> \<le> m"
proof -
  have "real_of_int (- (m + 1)) < real_of_int k" "real_of_int k < real_of_int (m + 1)"
    using assms by simp_all
  then have "- (m + 1) < k" "k < m + 1" by (simp_all only: of_int_less_iff)
  then show ?thesis by simp
qed

lemma rounded_sum_close:
  "\<bar>py_round (a + b + c) - (py_round a + py_round b + py_round c)\<bar> \<le> 2"
proof -
  note py_round_lower [of "a + b + c"] py_round_upper [of "a + b + c"]
    py_round_lower [of a] py_round_upper [of a]
    py_round_lower [of b] py_round_upper [of b]
    py_round_lower [of c] py_round_upper [of c]
  then have
    "- (real_of_int 2 + 1)
       < real_of_int (py_round (a + b + c) - (py_round a + py_round b + py_round c))"
    "real_of_int (py_round (a + b + c) - (py_round a + py_round b + py_round c))
       < real_of_int 2 + 1"
    by simp_all
  then show ?thesis by (rule int_abs_le_from_real)
qed

subsection \<open>The insurance total\<close>

text \<open>
  C2 (as the spec states it, refuted). The claim has the stored \<open>total\<close> equal to the sum
  of the three stored, rounded components. The code stores the rounding of the unrounded
  sum instead (line 119). For \<open>gross_income = 5,000,030\<close>, no dependents, region 1 the
  components are 400,002.4, 75,000.45 and 50,000.3: they are stored as 400,002, 75,000 and
  50,000, which add up to 525,002, while the stored total is the rounding of 525,003.15,
  that is 525,003.
\<close>

theorem C2_counterexample:
  "map_sum id (total \<circ> insurance_breakdown)
     (calculate_gross_to_net \<lparr>gross_income = 5000030, num_dependents = 0, region = 1\<rparr>)
     = Inr 525003 \<and>
   map_sum id (components_sum \<circ> insurance_breakdown)
     (calculate_gross_to_net \<lparr>gross_income = 5000030, num_dependents = 0, region = 1\<rparr>)
     = Inr 525002"
  by (simp add: result_defs local_defs constant_defs components_sum_def py_round_def)

text \<open>
  C2 (amended). For every valid input the function returns, each of the three stored
  components is the rounding of its unrounded contribution, the stored \<open>total\<close> is the
  rounding of the unrounded sum of the three contributions, \<open>pre_tax_income\<close> is computed
  from that same unrounded sum, and the stored total differs from the sum of the three
  stored components by at most 2 VND.
\<close>

theorem C2_total:
  assumes "valid_input d"
  shows "\<exists>w r. REGIONAL_MINIMUM_WAGES (region d) = Some w \<and>
           calculate_gross_to_net d = Inr r \<and>
           social_insurance (insurance_breakdown r) = py_round (bhxh (gross_income d) w) \<and>
           health_insurance (insurance_breakdown r) = py_round (bhyt (gross_income d) w) \<and>
           unemployment_insurance (insurance_breakdown r) = py_round (bhtn (gross_income d) w) \<and>
           total (insurance_breakdown r) =
             py_round (bhxh (gross_income d) w + bhyt (gross_income d) w + bhtn (gross_income d) w) \<and>
           pre_tax_income r =
             py_round (gross_income d -
               (bhxh (gross_income d) w + bhyt (gross_income d) w + bhtn (gross_income d) w)) \<and>
           \<bar>total (insurance_breakdown r) - components_sum (insurance_breakdown r)\<bar> \<le> 2"
proof -
  from assms obtain w where w: "REGIONAL_MINIMUM_WAGES (region d) = Some w"
    using valid_input_rmw by blast
  let ?r = "make_result (gross_income d) (num_dependents d) w"
  have "calculate_gross_to_net d = Inr ?r" using w by (rule calc_Inr)
  moreover have "\<bar>total (insurance_breakdown ?r) - components_sum (insurance_breakdown ?r)\<bar> \<le> 2"
    using rounded_sum_close [of "bhxh (gross_income d) w" "bhyt (gross_income d) w" "bhtn (gross_income d) w"]
    by (simp add: make_result_def make_insurance_breakdown_def components_sum_def total_insurance_def)
  ultimately show ?thesis
    using w
    by (simp add: make_result_def make_insurance_breakdown_def total_insurance_def
        pre_tax_income_raw_def)
qed

theorem C2_total_witness:
  "valid_input \<lparr>gross_income = 5000030, num_dependents = 0, region = 1\<rparr> \<and>
   (\<exists>w r. REGIONAL_MINIMUM_WAGES 1 = Some w \<and>
      calculate_gross_to_net \<lparr>gross_income = 5000030, num_dependents = 0, region = 1\<rparr> = Inr r \<and>
      social_insurance (insurance_breakdown r) = py_round (bhxh 5000030 w) \<and>
      health_insurance (insurance_breakdown r) = py_round (bhyt 5000030 w) \<and>
      unemployment_insurance (insurance_breakdown r) = py_round (bhtn 5000030 w) \<and>
      total (insurance_breakdown r) =
         py_round (bhxh 5000030 w + bhyt 5000030 w + bhtn 5000030 w) \<and>
      pre_tax_income r =
         py_round (5000030 - (bhxh 5000030 w + bhyt 5000030 w + bhtn 5000030 w)) \<and>
      \<bar>total (insurance_breakdown r) - components_sum (insurance_breakdown r)\<bar> \<le> 2)"
proof -
  have v: "valid_input \<lparr>gross_income = 5000030, num_dependents = 0, region = 1\<rparr>"
    by (simp add: valid_input_def)
  from C2_total [OF v] v show ?thesis by simp
qed

subsection \<open>The net income identity\<close>

text \<open>
  C3. For every valid input the function returns a result whose fields satisfy
  \<open>net_income = gross_income - total_insurance_contribution - personal_income_tax\<close> up
  to rounding: the two sides differ by at most 1 VND.
\<close>

theorem C3_net_identity:
  assumes "valid_input d"
  shows "\<exists>r. calculate_gross_to_net d = Inr r \<and>
           \<bar>net_income r -
             (gross_income_out r - total_insurance_contribution r - personal_income_tax r)\<bar> \<le> 1"
proof -
  from assms obtain w where w: "REGIONAL_MINIMUM_WAGES (region d) = Some w"
    using valid_input_rmw by blast
  define g where "g = gross_income d"
  define n where "n = num_dependents d"
  let ?r = "make_result g n w"
  have r: "calculate_gross_to_net d = Inr ?r" using w unfolding g_def n_def by (rule calc_Inr)
  note py_round_lower [of g] py_round_upper [of g]
    py_round_lower [of "total_insurance g w"] py_round_upper [of "total_insurance g w"]
    py_round_lower [of "net_income_raw g n w"] py_round_upper [of "net_income_raw g n w"]
  then have
    "- (real_of_int 1 + 1) < real_of_int (py_round (net_income_raw g n w) -
        (py_round g - py_round (total_insurance g w) - pit g n w))"
    "real_of_int (py_round (net_income_raw g n w) -
        (py_round g - py_round (total_insurance g w) - pit g n w)) < real_of_int 1 + 1"
    by (simp_all add: net_income_raw_def)
  then have "\<bar>py_round (net_income_raw g n w) -
        (py_round g - py_round (total_insurance g w) - pit g n w)\<bar> \<le> 1"
    by (rule int_abs_le_from_real)
  then have "\<bar>net_income ?r -
       (gross_income_out ?r - total_insurance_contribution ?r - personal_income_tax ?r)\<bar> \<le> 1"
    by (simp add: make_result_def make_insurance_breakdown_def)
  with r show ?thesis by blast
qed

theorem C3_net_identity_witness:
  "valid_input basic_example \<and>
   (\<exists>r. calculate_gross_to_net basic_example = Inr r \<and>
      \<bar>net_income r -
        (gross_income_out r - total_insurance_contribution r - personal_income_tax r)\<bar> \<le> 1)"
proof -
  have v: "valid_input basic_example"
    by (simp add: valid_input_def basic_example_def)
  from C3_net_identity [OF v] v show ?thesis by simp
qed

subsection \<open>The only failure\<close>

text \<open>
  C4. The function fails with \<open>InvalidRegion\<close>, carrying the offending region, exactly
  when the region is not one of 1, 2, 3, 4; it returns a result exactly when the region
  is one of them, whatever the gross income and the number of dependents are (they are
  not validated again); and it never does both: a failure is an \<open>Inl\<close> and carries no
  result.
\<close>

theorem C4_invalid_region:
  "(calculate_gross_to_net d = Inl (InvalidRegion (region d))) = (region d \<notin> {1, 2, 3, 4}) \<and>
   (\<exists>r. calculate_gross_to_net d = Inr r) = (region d \<in> {1, 2, 3, 4}) \<and>
   (\<exists>e. calculate_gross_to_net d = Inl e) = (region d \<notin> {1, 2, 3, 4})"
proof (cases "region d \<in> {1, 2, 3, 4}")
  case True
  then obtain w where "REGIONAL_MINIMUM_WAGES (region d) = Some w"
    using rmw_valid by blast
  then have "calculate_gross_to_net d = Inr (make_result (gross_income d) (num_dependents d) w)"
    by (rule calc_Inr)
  with True show ?thesis by simp
next
  case False
  then have "REGIONAL_MINIMUM_WAGES (region d) = None" by (rule rmw_invalid)
  then have "calculate_gross_to_net d = Inl (InvalidRegion (region d))" by (rule calc_Inl)
  with False show ?thesis by simp
qed

theorem C4_invalid_region_witness:
  "calculate_gross_to_net \<lparr>gross_income = 0, num_dependents = - 3, region = 5\<rparr>
     = Inl (InvalidRegion 5) \<and>
   (\<exists>r. calculate_gross_to_net \<lparr>gross_income = - 5, num_dependents = - 3, region = 2\<rparr>
     = Inr r)"
  using C4_invalid_region [of "\<lparr>gross_income = 0, num_dependents = - 3, region = 5\<rparr>"]
    C4_invalid_region [of "\<lparr>gross_income = - 5, num_dependents = - 3, region = 2\<rparr>"]
  by simp

subsection \<open>The bracket walk\<close>

lemma min_limit_mono: "t1 \<le> t2 \<Longrightarrow> min_limit t1 l \<le> min_limit t2 l"
  by (cases l) auto

lemma ascending_Cons:
  assumes "ascending (Finite p) (b # bs)"
  shows "0 \<le> rate b" "ascending (limit b) bs" "p < t \<Longrightarrow> p \<le> min_limit t (limit b)"
  using assms by (cases "limit b"; simp)+

lemma pit_loop_ge_acc: "ascending prev bs \<Longrightarrow> acc \<le> pit_loop bs t prev acc"
proof (induction bs arbitrary: prev acc)
  case Nil
  show ?case by simp
next
  case (Cons b bs)
  show ?case
  proof (cases prev)
    case Infinity
    then show ?thesis by simp
  next
    case (Finite p)
    show ?thesis
    proof (cases "p < t")
      case False
      with Finite show ?thesis by simp
    next
      case True
      from Cons.prems Finite have asc: "ascending (Finite p) (b # bs)" by simp
      have "0 \<le> (min_limit t (limit b) - p) * rate b"
        using ascending_Cons(1) [OF asc] ascending_Cons(3) [OF asc True] by simp
      then have "acc \<le> acc + (min_limit t (limit b) - p) * rate b" by simp
      also have "\<dots> \<le> pit_loop bs t (limit b) (acc + (min_limit t (limit b) - p) * rate b)"
        by (rule Cons.IH [OF ascending_Cons(2) [OF asc]])
      finally show ?thesis using Finite True by simp
    qed
  qed
qed

lemma pit_loop_mono:
  "ascending prev bs \<Longrightarrow> t1 \<le> t2 \<Longrightarrow> a1 \<le> a2 \<Longrightarrow>
     pit_loop bs t1 prev a1 \<le> pit_loop bs t2 prev a2"
proof (induction bs arbitrary: prev a1 a2)
  case Nil
  then show ?case by simp
next
  case (Cons b bs)
  show ?case
  proof (cases prev)
    case Infinity
    with Cons.prems show ?thesis by simp
  next
    case (Finite p)
    from Cons.prems Finite have asc: "ascending (Finite p) (b # bs)" by simp
    note r = ascending_Cons(1) [OF asc] and rest = ascending_Cons(2) [OF asc]
    show ?thesis
    proof (cases "p < t1")
      case True
      with Cons.prems have t2: "p < t2" by simp
      have "(min_limit t1 (limit b) - p) * rate b \<le> (min_limit t2 (limit b) - p) * rate b"
        using min_limit_mono [OF Cons.prems(2), of "limit b"] r
        by (simp add: mult_right_mono)
      with Cons.prems(3)
      have "a1 + (min_limit t1 (limit b) - p) * rate b
              \<le> a2 + (min_limit t2 (limit b) - p) * rate b"
        by simp
      from Cons.IH [OF rest Cons.prems(2) this] show ?thesis
        using Finite True t2 by simp
    next
      case False
      show ?thesis
      proof (cases "p < t2")
        case False
        with \<open>\<not> p < t1\<close> Finite Cons.prems(3) show ?thesis by simp
      next
        case True
        have "0 \<le> (min_limit t2 (limit b) - p) * rate b"
          using r ascending_Cons(3) [OF asc True] by simp
        with Cons.prems(3) have "a1 \<le> a2 + (min_limit t2 (limit b) - p) * rate b" by simp
        also have "\<dots> \<le> pit_loop bs t2 (limit b) (a2 + (min_limit t2 (limit b) - p) * rate b)"
          by (rule pit_loop_ge_acc [OF rest])
        finally show ?thesis using Finite True \<open>\<not> p < t1\<close> by simp
      qed
    qed
  qed
qed

lemma ascending_PIT_BRACKETS: "ascending (Finite 0) PIT_BRACKETS"
  by (simp add: PIT_BRACKETS_def)

lemma pit_raw_mono: "t1 \<le> t2 \<Longrightarrow> pit_raw t1 \<le> pit_raw t2"
  unfolding pit_raw_def by (rule pit_loop_mono [OF ascending_PIT_BRACKETS]) simp_all

lemma pit_raw_nonneg: "0 \<le> pit_raw t"
  unfolding pit_raw_def by (rule pit_loop_ge_acc [OF ascending_PIT_BRACKETS])

lemma pit_raw_explicit:
  "pit_raw t =
     (if t \<le> 0 then 0
      else if t \<le> 5000000 then t * (5 / 100)
      else if t \<le> 10000000 then t * (10 / 100) - 250000
      else if t \<le> 18000000 then t * (15 / 100) - 750000
      else if t \<le> 32000000 then t * (20 / 100) - 1650000
      else if t \<le> 52000000 then t * (25 / 100) - 3250000
      else if t \<le> 80000000 then t * (30 / 100) - 5850000
      else t * (35 / 100) - 9850000)"
  by (auto simp add: pit_raw_def PIT_BRACKETS_def diff_divide_distrib)

lemma pit_raw_le: "0 \<le> t \<Longrightarrow> pit_raw t \<le> t * (35 / 100)"
  by (simp add: pit_raw_explicit)

subsection \<open>Insurance, pre-tax income and net income\<close>

lemma clamp_step:
  fixes g1 g2 w c :: real
  assumes "g1 \<le> g2"
  shows "max (min (max g1 w) c) w \<le> max (min (max g2 w) c) w"
    and "max (min (max g2 w) c) w - max (min (max g1 w) c) w \<le> g2 - g1"
  using assms by linarith+

lemma salary_base_bhxh_bhyt_step:
  assumes "g1 \<le> g2"
  shows "salary_base_bhxh_bhyt g1 w \<le> salary_base_bhxh_bhyt g2 w"
    and "salary_base_bhxh_bhyt g2 w - salary_base_bhxh_bhyt g1 w \<le> g2 - g1"
  unfolding salary_base_bhxh_bhyt_def insurance_base_def
  by (rule clamp_step [OF assms])+

lemma salary_base_bhtn_step:
  assumes "g1 \<le> g2"
  shows "salary_base_bhtn g1 w \<le> salary_base_bhtn g2 w"
    and "salary_base_bhtn g2 w - salary_base_bhtn g1 w \<le> g2 - g1"
  unfolding salary_base_bhtn_def insurance_base_def
  by (rule clamp_step [OF assms])+

lemma total_insurance_eq:
  "total_insurance g w =
     salary_base_bhxh_bhyt g w * (95 / 1000) + salary_base_bhtn g w * (1 / 100)"
  by (simp add: total_insurance_def bhxh_def bhyt_def bhtn_def constant_defs)

lemma pre_tax_income_raw_mono:
  assumes "g1 \<le> g2"
  shows "pre_tax_income_raw g1 w \<le> pre_tax_income_raw g2 w"
  using salary_base_bhxh_bhyt_step [OF assms, of w] salary_base_bhtn_step [OF assms, of w]
  by (simp add: pre_tax_income_raw_def total_insurance_eq)

lemma taxable_income_raw_mono:
  "g1 \<le> g2 \<Longrightarrow> taxable_income_raw g1 n w \<le> taxable_income_raw g2 n w"
  using pre_tax_income_raw_mono [of g1 g2 w] by (simp add: taxable_income_raw_def)

lemma salary_bases_ge: "of_int w \<le> salary_base_bhxh_bhyt g w" "of_int w \<le> salary_base_bhtn g w"
  by (simp_all add: salary_base_bhxh_bhyt_def salary_base_bhtn_def)

lemma salary_bases_le:
  assumes "of_int w \<le> g"
  shows "salary_base_bhxh_bhyt g w \<le> g" "salary_base_bhtn g w \<le> g"
  using assms by (auto simp: salary_base_bhxh_bhyt_def salary_base_bhtn_def insurance_base_def)

lemma insurance_nonneg:
  assumes "0 \<le> w"
  shows "0 \<le> bhxh g w" "0 \<le> bhyt g w" "0 \<le> bhtn g w" "0 \<le> total_insurance g w"
proof -
  have "0 \<le> salary_base_bhxh_bhyt g w" "0 \<le> salary_base_bhtn g w"
    using salary_bases_ge [of w g] assms by linarith+
  then show "0 \<le> bhxh g w" "0 \<le> bhyt g w" "0 \<le> bhtn g w"
    by (simp_all add: bhxh_def bhyt_def bhtn_def constant_defs)
  then show "0 \<le> total_insurance g w" by (simp add: total_insurance_def)
qed

lemma pre_tax_income_raw_ge:
  assumes "of_int w \<le> g"
  shows "g * (895 / 1000) \<le> pre_tax_income_raw g w"
  using salary_bases_le [OF assms]
  by (simp add: pre_tax_income_raw_def total_insurance_eq)

lemma total_allowances_ge: "0 \<le> n \<Longrightarrow> 11000000 \<le> total_allowances n"
  by (simp add: total_allowances_def constant_defs)

lemma taxable_income_raw_nonneg: "0 \<le> taxable_income_raw g n w"
  by (simp add: taxable_income_raw_def)

lemma pit_eq: "pit g n w = py_round (pit_raw (taxable_income_raw g n w))"
  using py_round_nonneg [OF pit_raw_nonneg, of "taxable_income_raw g n w"]
  by (simp add: pit_def)

lemma pit_nonneg: "0 \<le> pit g n w"
  by (simp add: pit_def)

lemma net_income_raw_nonneg:
  assumes p: "0 \<le> pre_tax_income_raw g w" and n: "0 \<le> n"
  shows "0 \<le> net_income_raw g n w"
proof -
  define pre where "pre = pre_tax_income_raw g w"
  define al where "al = real_of_int (total_allowances n)"
  define T where "T = taxable_income_raw g n w"
  have pre: "0 \<le> pre" using p by (simp add: pre_def)
  have al: "11000000 \<le> al" unfolding al_def using total_allowances_ge [OF n] by linarith
  have T: "T = max 0 (pre - al)" by (simp add: T_def taxable_income_raw_def pre_def al_def)
  have p1: "real_of_int (pit g n w) \<le> pit_raw T + 1 / 2"
    unfolding pit_eq T_def by (rule py_round_upper)
  have net: "net_income_raw g n w = pre - real_of_int (pit g n w)"
    by (simp add: net_income_raw_def pre_def pre_tax_income_raw_def)
  show ?thesis
  proof (cases "pre \<le> al")
    case True
    then have "T = 0" using T by simp
    then have "pit g n w = 0" by (simp add: pit_eq T_def [symmetric] pit_raw_explicit)
    with pre net show ?thesis by simp
  next
    case False
    then have "T = pre - al" "0 \<le> T" using T by simp_all
    with pit_raw_le [of T] have "pit_raw T \<le> (pre - al) * (35 / 100)" by simp
    with p1 al False pre net show ?thesis by simp
  qed
qed

subsection \<open>Signs of the output fields\<close>

text \<open>
  C5 (as the spec states it, refuted). The claim has every numeric field of the result
  non-negative for every valid input. The insurance base is never below the regional
  minimum wage (line 102), so a gross income below the contributions on that minimum wage
  gives a negative pre-tax and net income: for \<open>gross_income = 1\<close>, no dependents, region 1
  the contributions are 520,800 and both fields are \<open>-520,799\<close>.
\<close>

theorem C5_counterexample:
  "valid_input \<lparr>gross_income = 1, num_dependents = 0, region = 1\<rparr> \<and>
   map_sum id pre_tax_income
     (calculate_gross_to_net \<lparr>gross_income = 1, num_dependents = 0, region = 1\<rparr>)
     = Inr (- 520799) \<and>
   map_sum id net_income
     (calculate_gross_to_net \<lparr>gross_income = 1, num_dependents = 0, region = 1\<rparr>)
     = Inr (- 520799)"
  by (simp add: valid_input_def result_defs local_defs constant_defs PIT_BRACKETS_def
      py_round_def)

text \<open>
  C5 (amended). For every valid input the function returns a result whose
  \<open>gross_income\<close>, \<open>personal_income_tax\<close>, \<open>total_insurance_contribution\<close> and
  \<open>taxable_income\<close> are non-negative; \<open>pre_tax_income\<close> and \<open>net_income\<close> are
  non-negative whenever the gross income is at least the total insurance contribution
  (the unrounded sum of the three contributions).
\<close>

theorem C5_nonnegative_fields:
  assumes "valid_input d"
  shows "\<exists>w r. REGIONAL_MINIMUM_WAGES (region d) = Some w \<and>
           calculate_gross_to_net d = Inr r \<and>
           0 \<le> gross_income_out r \<and> 0 \<le> personal_income_tax r \<and>
           0 \<le> total_insurance_contribution r \<and> 0 \<le> taxable_income r \<and>
           (total_insurance (gross_income d) w \<le> gross_income d \<longrightarrow>
              0 \<le> pre_tax_income r \<and> 0 \<le> net_income r)"
proof -
  from assms obtain w where w: "REGIONAL_MINIMUM_WAGES (region d) = Some w"
    using valid_input_rmw by blast
  define g where "g = gross_income d"
  define n where "n = num_dependents d"
  have g: "0 < g" and n: "0 \<le> n" using assms by (simp_all add: valid_input_def g_def n_def)
  have w0: "0 \<le> w" using rmw_pos [OF w] by simp
  let ?r = "make_result g n w"
  have r: "calculate_gross_to_net d = Inr ?r" using w unfolding g_def n_def by (rule calc_Inr)
  have "0 \<le> gross_income_out ?r"
    using g by (simp add: make_result_def py_round_nonneg)
  moreover have "0 \<le> personal_income_tax ?r"
    by (simp add: make_result_def pit_nonneg)
  moreover have "0 \<le> total_insurance_contribution ?r"
    using insurance_nonneg(4) [OF w0, of g]
    by (simp add: make_result_def make_insurance_breakdown_def py_round_nonneg)
  moreover have "0 \<le> taxable_income ?r"
    by (simp add: make_result_def py_round_nonneg taxable_income_raw_nonneg)
  moreover have "0 \<le> pre_tax_income ?r \<and> 0 \<le> net_income ?r"
    if le: "total_insurance g w \<le> g"
  proof -
    have p: "0 \<le> pre_tax_income_raw g w" using le by (simp add: pre_tax_income_raw_def)
    moreover have "0 \<le> net_income_raw g n w" using p n by (rule net_income_raw_nonneg)
    ultimately show ?thesis by (simp add: make_result_def py_round_nonneg)
  qed
  ultimately show ?thesis using w r by (auto simp: g_def)
qed

theorem C5_nonnegative_fields_witness:
  "valid_input \<lparr>gross_income = 1000000, num_dependents = 0, region = 1\<rparr> \<and>
   total_insurance 1000000 4960000 = 520800 \<and>
   (\<exists>r. calculate_gross_to_net \<lparr>gross_income = 1000000, num_dependents = 0, region = 1\<rparr>
          = Inr r \<and>
      0 \<le> gross_income_out r \<and> 0 \<le> personal_income_tax r \<and>
      0 \<le> total_insurance_contribution r \<and> 0 \<le> taxable_income r \<and>
      0 \<le> pre_tax_income r \<and> 0 \<le> net_income r)"
proof -
  have v: "valid_input \<lparr>gross_income = 1000000, num_dependents = 0, region = 1\<rparr>"
    by (simp add: valid_input_def)
  have w: "REGIONAL_MINIMUM_WAGES 1 = Some 4960000"
    by (simp add: REGIONAL_MINIMUM_WAGES_def)
  have t: "total_insurance 1000000 4960000 = 520800"
    by (simp add: local_defs constant_defs)
  from C5_nonnegative_fields [OF v] w t v show ?thesis by auto
qed

subsection \<open>One more dependent\<close>

lemma total_allowances_Suc: "total_allowances (n + 1) = total_allowances n + DEPENDENT_ALLOWANCE"
  by (simp add: total_allowances_def algebra_simps)

lemma taxable_income_raw_more_dependents:
  "taxable_income_raw g (n + 1) w \<le> taxable_income_raw g n w"
  by (simp add: taxable_income_raw_def total_allowances_Suc constant_defs)

lemma py_round_taxable_more_dependents:
  "py_round (taxable_income_raw g (n + 1) w) =
     max 0 (py_round (taxable_income_raw g n w) - DEPENDENT_ALLOWANCE)"
proof -
  define x where "x = pre_tax_income_raw g w - real_of_int (total_allowances n)"
  have ev: "even (4400000 :: int)" by simp
  have "taxable_income_raw g (n + 1) w = max 0 (x - real_of_int 4400000)"
    by (simp add: taxable_income_raw_def total_allowances_Suc x_def constant_defs)
  then have "py_round (taxable_income_raw g (n + 1) w) = max 0 (py_round x - 4400000)"
    by (simp only: py_round_max py_round_zero py_round_diff_even [OF ev])
  moreover have "py_round (taxable_income_raw g n w) = max 0 (py_round x)"
    by (simp add: taxable_income_raw_def x_def py_round_max)
  ultimately show ?thesis by (simp add: constant_defs)
qed

text \<open>
  C6 (as the spec states it, refuted). The claim has the taxable income fall by exactly
  the dependent allowance, 4,400,000, unless it is already clamped at 0. For
  \<open>gross_income = 15,000,000\<close>, region 1, the taxable income with no dependent is
  2,425,000: it is positive, not clamped. With one dependent it is 0, a fall of
  2,425,000 and not of 4,400,000.
\<close>

theorem C6_counterexample:
  "valid_input \<lparr>gross_income = 15000000, num_dependents = 0, region = 1\<rparr> \<and>
   taxable_income_raw 15000000 0 4960000 = 2425000 \<and>
   map_sum id taxable_income
     (calculate_gross_to_net \<lparr>gross_income = 15000000, num_dependents = 0, region = 1\<rparr>)
     = Inr 2425000 \<and>
   map_sum id taxable_income
     (calculate_gross_to_net \<lparr>gross_income = 15000000, num_dependents = 0 + 1, region = 1\<rparr>)
     = Inr 0 \<and>
   (2425000 :: int) - 0 \<noteq> DEPENDENT_ALLOWANCE"
  by (simp add: valid_input_def result_defs local_defs constant_defs PIT_BRACKETS_def
      py_round_def)

text \<open>
  C6 (amended). For every valid input, one more dependent (same gross income and region)
  never gives a larger \<open>personal_income_tax\<close>, and the new \<open>taxable_income\<close> is
  \<open>max(0, taxable_income - 4,400,000)\<close>: it falls by exactly the dependent allowance when
  the taxable income with the smaller count is at least 4,400,000, and is 0 otherwise.
\<close>

theorem C6_more_dependents:
  assumes "valid_input d"
  shows "\<exists>r r'. calculate_gross_to_net d = Inr r \<and>
           calculate_gross_to_net (d\<lparr>num_dependents := num_dependents d + 1\<rparr>) = Inr r' \<and>
           personal_income_tax r' \<le> personal_income_tax r \<and>
           taxable_income r' = max 0 (taxable_income r - DEPENDENT_ALLOWANCE)"
proof -
  from assms obtain w where w: "REGIONAL_MINIMUM_WAGES (region d) = Some w"
    using valid_input_rmw by blast
  define g where "g = gross_income d"
  define n where "n = num_dependents d"
  let ?d' = "d\<lparr>num_dependents := num_dependents d + 1\<rparr>"
  let ?r = "make_result g n w" and ?r' = "make_result g (n + 1) w"
  have r: "calculate_gross_to_net d = Inr ?r" using w unfolding g_def n_def by (rule calc_Inr)
  have "REGIONAL_MINIMUM_WAGES (region ?d') = Some w" using w by simp
  then have "calculate_gross_to_net ?d' =
      Inr (make_result (gross_income ?d') (num_dependents ?d') w)"
    by (rule calc_Inr)
  then have r': "calculate_gross_to_net ?d' = Inr ?r'" by (simp add: g_def n_def)
  have "pit g (n + 1) w \<le> pit g n w"
    unfolding pit_eq
    by (intro py_round_mono pit_raw_mono taxable_income_raw_more_dependents)
  then have "personal_income_tax ?r' \<le> personal_income_tax ?r" by (simp add: make_result_def)
  moreover have "taxable_income ?r' = max 0 (taxable_income ?r - DEPENDENT_ALLOWANCE)"
    by (simp add: make_result_def py_round_taxable_more_dependents)
  ultimately show ?thesis using r r' by blast
qed

theorem C6_more_dependents_witness:
  "valid_input basic_example \<and>
   (\<exists>r r'. calculate_gross_to_net basic_example = Inr r \<and>
      calculate_gross_to_net (basic_example\<lparr>num_dependents := num_dependents basic_example + 1\<rparr>)
        = Inr r' \<and>
      personal_income_tax r' \<le> personal_income_tax r \<and>
      taxable_income r' = max 0 (taxable_income r - DEPENDENT_ALLOWANCE))"
proof -
  have v: "valid_input basic_example"
    by (simp add: valid_input_def basic_example_def)
  from C6_more_dependents [OF v] v show ?thesis by simp
qed

subsection \<open>The tax grows with the gross income\<close>

text \<open>
  C7. For valid inputs with the same number of dependents and the same region,
  \<open>personal_income_tax\<close> is not negative and is weakly increasing in the gross income:
  for \<open>0 < g1 \<le> g2\<close> the tax returned for \<open>g1\<close> is at most the tax returned for \<open>g2\<close>.
\<close>

theorem C7_pit_monotone:
  assumes "0 < g1" "g1 \<le> g2" "0 \<le> n" "reg \<in> {1, 2, 3, 4}"
  shows "\<exists>r1 r2.
           calculate_gross_to_net \<lparr>gross_income = g1, num_dependents = n, region = reg\<rparr> = Inr r1 \<and>
           calculate_gross_to_net \<lparr>gross_income = g2, num_dependents = n, region = reg\<rparr> = Inr r2 \<and>
           0 \<le> personal_income_tax r1 \<and>
           personal_income_tax r1 \<le> personal_income_tax r2"
proof -
  from assms(4) obtain w where w: "REGIONAL_MINIMUM_WAGES reg = Some w"
    using rmw_valid by blast
  let ?r1 = "make_result g1 n w" and ?r2 = "make_result g2 n w"
  have r1: "calculate_gross_to_net \<lparr>gross_income = g1, num_dependents = n, region = reg\<rparr> = Inr ?r1"
    using calc_Inr [of "\<lparr>gross_income = g1, num_dependents = n, region = reg\<rparr>" w] w by simp
  have r2: "calculate_gross_to_net \<lparr>gross_income = g2, num_dependents = n, region = reg\<rparr> = Inr ?r2"
    using calc_Inr [of "\<lparr>gross_income = g2, num_dependents = n, region = reg\<rparr>" w] w by simp
  have "pit g1 n w \<le> pit g2 n w"
    unfolding pit_eq
    by (intro py_round_mono pit_raw_mono taxable_income_raw_mono assms(2))
  then have "personal_income_tax ?r1 \<le> personal_income_tax ?r2" by (simp add: make_result_def)
  moreover have "0 \<le> personal_income_tax ?r1" by (simp add: make_result_def pit_nonneg)
  ultimately show ?thesis using r1 r2 by blast
qed

theorem C7_pit_monotone_witness:
  "(0 :: real) < 20000000 \<and> (20000000 :: real) \<le> 30000000 \<and> (0 :: int) \<le> 1 \<and>
   (1 :: int) \<in> {1, 2, 3, 4} \<and>
   (\<exists>r1 r2.
      calculate_gross_to_net \<lparr>gross_income = 20000000, num_dependents = 1, region = 1\<rparr> = Inr r1 \<and>
      calculate_gross_to_net \<lparr>gross_income = 30000000, num_dependents = 1, region = 1\<rparr> = Inr r2 \<and>
      0 \<le> personal_income_tax r1 \<and>
      personal_income_tax r1 \<le> personal_income_tax r2)"
  using C7_pit_monotone [of 20000000 30000000 1 1] by simp

subsection \<open>Bracket walk and closed form\<close>

text \<open>
  C8. For every taxable income \<open>t \<ge> 0\<close>, the bracket walk of the code (\<open>pit_raw\<close>, the
  loop of lines 131--139 on the literal \<open>PIT_BRACKETS\<close>) yields the same unrounded tax as
  the closed form of the spec, \<open>t \<times> rate - deduction\<close> at the first bracket whose limit
  is at least \<open>t\<close>, with the rates and deduction constants of the same table.
\<close>

theorem C8_closed_form:
  assumes "0 \<le> t"
  shows "spec_closed_form_pit PIT_BRACKETS t = Some (pit_raw t)"
  using assms
  by (auto simp add: spec_closed_form_pit_def PIT_BRACKETS_def pit_raw_explicit)

theorem C8_closed_form_witness:
  "(0 :: real) \<le> 11450000 \<and>
   spec_closed_form_pit PIT_BRACKETS 11450000 = Some (pit_raw 11450000) \<and>
   pit_raw 11450000 = 967500"
  using C8_closed_form [of 11450000] by (simp add: pit_raw_explicit)

subsection \<open>One rounding rule\<close>

lemma py_round_half_even: "rounds_half_even x (py_round x)"
  unfolding rounds_half_even_def using py_round_bounds [of x] py_round_tie_even [of x] by blast

lemma rounds_half_even_unique:
  assumes "rounds_half_even u f" "rounds_half_even u f'"
  shows "f = f'"
proof (rule ccontr)
  assume ne: "f \<noteq> f'"
  from assms have b: "\<bar>real_of_int f - u\<bar> \<le> 1 / 2" "\<bar>real_of_int f' - u\<bar> \<le> 1 / 2"
    by (simp_all add: rounds_half_even_def)
  then have "\<bar>real_of_int f - real_of_int f'\<bar> \<le> 1" by linarith
  then have "\<bar>real_of_int (f - f')\<bar> \<le> real_of_int 1" by simp
  then have "\<bar>f - f'\<bar> \<le> 1" by (simp only: of_int_abs [symmetric] of_int_le_iff)
  with ne have d: "f = f' + 1 \<or> f' = f + 1" by linarith
  then have "real_of_int f = real_of_int f' + 1 \<or> real_of_int f' = real_of_int f + 1"
    by auto
  with b have tie: "\<bar>real_of_int f - u\<bar> = 1 / 2" "\<bar>real_of_int f' - u\<bar> = 1 / 2"
    by linarith+
  with assms have "even f" "even f'" by (simp_all add: rounds_half_even_def)
  with d show False by auto
qed

text \<open>
  C9. Every rounding of the function follows one and the same rule, round-half-to-even:
  for every valid input, each of the three insurance components, the insurance total (in
  the breakdown and in the result), the tax, and the output fields \<open>gross_income\<close>,
  \<open>net_income\<close>, \<open>taxable_income\<close> and \<open>pre_tax_income\<close> is the nearest integer to its
  unrounded value, and the even one of the two when the value is exactly half-way.
\<close>

theorem C9_one_rounding_rule:
  assumes "valid_input d"
  shows "\<exists>w r. REGIONAL_MINIMUM_WAGES (region d) = Some w \<and>
           calculate_gross_to_net d = Inr r \<and>
           rounds_half_even (bhxh (gross_income d) w) (social_insurance (insurance_breakdown r)) \<and>
           rounds_half_even (bhyt (gross_income d) w) (health_insurance (insurance_breakdown r)) \<and>
           rounds_half_even (bhtn (gross_income d) w)
             (unemployment_insurance (insurance_breakdown r)) \<and>
           rounds_half_even (total_insurance (gross_income d) w) (total (insurance_breakdown r)) \<and>
           rounds_half_even (total_insurance (gross_income d) w) (total_insurance_contribution r) \<and>
           rounds_half_even
             (pit_raw (taxable_income_raw (gross_income d) (num_dependents d) w))
             (personal_income_tax r) \<and>
           rounds_half_even (gross_income d) (gross_income_out r) \<and>
           rounds_half_even (net_income_raw (gross_income d) (num_dependents d) w) (net_income r) \<and>
           rounds_half_even (taxable_income_raw (gross_income d) (num_dependents d) w)
             (taxable_income r) \<and>
           rounds_half_even (pre_tax_income_raw (gross_income d) w) (pre_tax_income r)"
proof -
  from assms obtain w where w: "REGIONAL_MINIMUM_WAGES (region d) = Some w"
    using valid_input_rmw by blast
  have "calculate_gross_to_net d = Inr (make_result (gross_income d) (num_dependents d) w)"
    using w by (rule calc_Inr)
  with w show ?thesis
    by (simp add: make_result_def make_insurance_breakdown_def pit_eq py_round_half_even)
qed

theorem C9_one_rounding_rule_witness:
  "valid_input \<lparr>gross_income = 5000100, num_dependents = 0, region = 1\<rparr> \<and>
   (\<exists>w r. REGIONAL_MINIMUM_WAGES 1 = Some w \<and>
      calculate_gross_to_net \<lparr>gross_income = 5000100, num_dependents = 0, region = 1\<rparr> = Inr r \<and>
      rounds_half_even (bhxh 5000100 w) (social_insurance (insurance_breakdown r)) \<and>
      rounds_half_even (bhyt 5000100 w) (health_insurance (insurance_breakdown r)) \<and>
      rounds_half_even (bhtn 5000100 w) (unemployment_insurance (insurance_breakdown r)) \<and>
      rounds_half_even (total_insurance 5000100 w) (total (insurance_breakdown r)) \<and>
      rounds_half_even (total_insurance 5000100 w) (total_insurance_contribution r) \<and>
      rounds_half_even (pit_raw (taxable_income_raw 5000100 0 w)) (personal_income_tax r) \<and>
      rounds_half_even 5000100 (gross_income_out r) \<and>
      rounds_half_even (net_income_raw 5000100 0 w) (net_income r) \<and>
      rounds_half_even (taxable_income_raw 5000100 0 w) (taxable_income r) \<and>
      rounds_half_even (pre_tax_income_raw 5000100 w) (pre_tax_income r)) \<and>
   bhyt 5000100 4960000 = 75001 + 1 / 2 \<and>
   map_sum id (health_insurance \<circ> insurance_breakdown)
     (calculate_gross_to_net \<lparr>gross_income = 5000100, num_dependents = 0, region = 1\<rparr>)
     = Inr 75002 \<and>
   pre_tax_income_raw 5000100 4960000 = 4475089 + 1 / 2 \<and>
   map_sum id pre_tax_income
     (calculate_gross_to_net \<lparr>gross_income = 5000100, num_dependents = 0, region = 1\<rparr>)
     = Inr 4475090"
proof -
  have v: "valid_input \<lparr>gross_income = 5000100, num_dependents = 0, region = 1\<rparr>"
    by (simp add: valid_input_def)
  have vals: "bhyt 5000100 4960000 = 75001 + 1 / 2"
      "pre_tax_income_raw 5000100 4960000 = 4475089 + 1 / 2"
    by (simp_all add: local_defs constant_defs)
  have res: "map_sum id (health_insurance \<circ> insurance_breakdown)
     (calculate_gross_to_net \<lparr>gross_income = 5000100, num_dependents = 0, region = 1\<rparr>)
     = Inr 75002"
     "map_sum id pre_tax_income
     (calculate_gross_to_net \<lparr>gross_income = 5000100, num_dependents = 0, region = 1\<rparr>)
     = Inr 4475090"
    by (simp_all add: result_defs local_defs constant_defs py_round_def)
  have inst: "\<exists>w r. REGIONAL_MINIMUM_WAGES 1 = Some w \<and>
      calculate_gross_to_net \<lparr>gross_income = 5000100, num_dependents = 0, region = 1\<rparr> = Inr r \<and>
      rounds_half_even (bhxh 5000100 w) (social_insurance (insurance_breakdown r)) \<and>
      rounds_half_even (bhyt 5000100 w) (health_insurance (insurance_breakdown r)) \<and>
      rounds_half_even (bhtn 5000100 w) (unemployment_insurance (insurance_breakdown r)) \<and>
      rounds_half_even (total_insurance 5000100 w) (total (insurance_breakdown r)) \<and>
      rounds_half_even (total_insurance 5000100 w) (total_insurance_contribution r) \<and>
      rounds_half_even (pit_raw (taxable_income_raw 5000100 0 w)) (personal_income_tax r) \<and>
      rounds_half_even 5000100 (gross_income_out r) \<and>
      rounds_half_even (net_income_raw 5000100 0 w) (net_income r) \<and>
      rounds_half_even (taxable_income_raw 5000100 0 w) (taxable_income r) \<and>
      rounds_half_even (pre_tax_income_raw 5000100 w) (pre_tax_income r)"
    using C9_one_rounding_rule [OF v] by simp
  from v inst vals res show ?thesis by (intro conjI)
qed

subsection \<open>Batch processing\<close>

lemma last_segment_after_colon:
  assumes "CHR '':'' \<notin> set t"
  shows "last_segment (s @ CHR '':'' # t) = t"
proof -
  have "takeWhile P (xs @ y # ys) = xs" if "\<forall>x \<in> set xs. P x" "\<not> P y"
    for P and xs ys :: string and y
    using that by (induction xs) auto
  from this [of "rev t" "\<lambda>c. c \<noteq> CHR '':''" "CHR '':''" "rev s"] assms
  have "takeWhile (\<lambda>c. c \<noteq> CHR '':'') (rev t @ CHR '':'' # rev s) = rev t"
    by auto
  then show ?thesis by (simp add: last_segment_def)
qed

lemma error_message_InvalidRow:
  "strip (last_segment (error_msg index InvalidRow)) =
     ''ValueError - Invalid input value(s) in row.''"
proof -
  have eq: "error_msg index InvalidRow =
      (''Row '' @ show_int (index + 2)) @ CHR '':'' # '' ValueError - Invalid input value(s) in row.''"
    by (simp add: error_msg_def)
  have "last_segment (error_msg index InvalidRow) =
      '' ValueError - Invalid input value(s) in row.''"
    unfolding eq by (rule last_segment_after_colon) simp
  then show ?thesis by (simp add: strip_def is_space_def)
qed

lemma error_message_NaNToInt:
  "strip (last_segment (error_msg index NaNToInt)) =
     ''ValueError - cannot convert float NaN to integer''"
proof -
  have eq: "error_msg index NaNToInt =
      (''Row '' @ show_int (index + 2)) @ CHR '':'' # '' ValueError - cannot convert float NaN to integer''"
    by (simp add: error_msg_def)
  have "last_segment (error_msg index NaNToInt) =
      '' ValueError - cannot convert float NaN to integer''"
    unfolding eq by (rule last_segment_after_colon) simp
  then show ?thesis by (simp add: strip_def is_space_def)
qed

lemma error_msg_nonempty: "error_msg index e \<noteq> []"
  by (simp add: error_msg_def)

lemma try_row_valid:
  assumes "row_valid row"
  shows "\<exists>result. try_row nan_exc row = Inr result"
proof -
  from assms obtain g n reg where
    c: "row ''GrossIncome'' = Num g" "0 < g"
       "py_int (row ''Dependents'') = Inr n" "0 \<le> n"
       "py_int (row ''Region'') = Inr reg" "reg \<in> {1, 2, 3, 4}"
    by (auto simp: row_valid_def split: cell.splits sum.splits)
  from c(6) obtain w where "REGIONAL_MINIMUM_WAGES reg = Some w" using rmw_valid by blast
  then have "calculate_gross_to_net \<lparr>gross_income = g, num_dependents = n, region = reg\<rparr> =
      Inr (make_result g n w)"
    using calc_Inr [of "\<lparr>gross_income = g, num_dependents = n, region = reg\<rparr>" w] by simp
  with c show ?thesis by (auto simp: try_row_def)
qed

lemma try_row_Inr_valid:
  assumes "try_row nan_exc row = Inr result"
  shows "row_valid row"
  using assms
  by (auto simp: try_row_def row_valid_def Let_def split: sum.splits cell.splits if_splits)

lemma try_row_region_outside:
  assumes "region_outside row"
  shows "try_row nan_exc row = Inl InvalidRow \<or> try_row nan_exc row = Inl NaNToInt"
proof (cases "row ''Region''")
  case NaN
  then show ?thesis
    by (cases "row ''Dependents''") (simp_all add: try_row_def)
next
  case (Num x)
  with assms show ?thesis
    by (cases "row ''Dependents''") (auto simp: try_row_def region_outside_def)
qed

lemma process_row_valid:
  assumes "row_valid row"
  shows "CalculationStatus (process_row nan_exc index row) = ''Success''"
    and "ErrorMessage (process_row nan_exc index row) = []"
  using try_row_valid [OF assms, of nan_exc] by (auto simp: process_row_def)

lemma process_row_invalid:
  assumes "\<not> row_valid row"
  shows "CalculationStatus (process_row nan_exc index row) = ''Error''"
proof (cases "try_row nan_exc row")
  case (Inl e)
  then show ?thesis by (simp add: process_row_def)
next
  case (Inr result)
  with assms try_row_Inr_valid show ?thesis by blast
qed

lemma process_row_region_outside:
  assumes "region_outside row"
  shows "CalculationStatus (process_row nan_exc index row) = ''Error''"
    and "ErrorMessage (process_row nan_exc index row) \<noteq> []"
  using try_row_region_outside [OF assms, of nan_exc]
  by (auto simp: process_row_def error_msg_nonempty error_message_InvalidRow
      error_message_NaNToInt)

lemma missing_cols_empty:
  "missing_cols cols = [] \<longleftrightarrow> set [''GrossIncome'', ''Dependents'', ''Region''] \<subseteq> set cols"
  by (auto simp: missing_cols_def EXPECTED_COLUMNS_def)

text \<open>
  C10. When the sheet has the three required columns the batch completes and returns one
  output row per input row, in input order, each carrying the input cells of its row and
  the outcome of that row alone: a row whose region is outside 1, 2, 3, 4 has status
  \<open>Error\<close> and a non-empty error message, a row with valid values has status
  \<open>Success\<close> and an empty error message, and every other row has status \<open>Error\<close>.
\<close>

theorem C10_batch_rows:
  assumes "set [''GrossIncome'', ''Dependents'', ''Region''] \<subseteq> set (columns df_input)"
  shows "\<exists>out. process_batch nan_exc df_input = Inr out \<and>
           length out = length (rows df_input) \<and>
           (\<forall>i < length (rows df_input).
              fst (out ! i) =
                ((rows df_input ! i) ''GrossIncome'', (rows df_input ! i) ''Dependents'',
                 (rows df_input ! i) ''Region'') \<and>
              snd (out ! i) = process_row nan_exc (int i) (rows df_input ! i) \<and>
              (region_outside (rows df_input ! i) \<longrightarrow>
                 CalculationStatus (snd (out ! i)) = ''Error'' \<and>
                 ErrorMessage (snd (out ! i)) \<noteq> []) \<and>
              (row_valid (rows df_input ! i) \<longrightarrow>
                 CalculationStatus (snd (out ! i)) = ''Success'' \<and>
                 ErrorMessage (snd (out ! i)) = []) \<and>
              (\<not> row_valid (rows df_input ! i) \<longrightarrow>
                 CalculationStatus (snd (out ! i)) = ''Error''))"
proof -
  let ?out = "map (\<lambda>(index, row).
                  ((row ''GrossIncome'', row ''Dependents'', row ''Region''),
                   process_row nan_exc (int index) row))
                (enumerate 0 (rows df_input))"
  have "missing_cols (columns df_input) = []" using assms by (simp only: missing_cols_empty)
  then have out: "process_batch nan_exc df_input = Inr ?out" by (simp add: process_batch_def)
  have len: "length ?out = length (rows df_input)" by simp
  show ?thesis
    using out len
    by (intro exI [of _ ?out])
       (simp add: nth_enumerate_eq process_row_valid process_row_invalid
          process_row_region_outside)
qed

theorem C10_batch_rows_witness:
  "set [''GrossIncome'', ''Dependents'', ''Region''] \<subseteq> set (columns example_with_bad_region) \<and>
   (\<exists>out. process_batch NaNToInt example_with_bad_region = Inr out \<and>
      length out = length (rows example_with_bad_region) \<and>
      map (CalculationStatus \<circ> snd) out = [''Success'', ''Error'', ''Success''] \<and>
      map (ErrorMessage \<circ> snd) out =
        [[], ''ValueError - Invalid input value(s) in row.'', []] \<and>
      map (NetIncome \<circ> snd) out = [Some 25882500, None, Some 41653200])"
proof -
  have c: "set [''GrossIncome'', ''Dependents'', ''Region''] \<subseteq> set (columns example_with_bad_region)"
    by (simp add: example_with_bad_region_def)
  have p0: "process_row NaNToInt 0 (\<lambda>c. if c = ''GrossIncome'' then Num 30000000
                    else if c = ''Dependents'' then Num 1 else Num 1) =
      \<lparr>NetIncome = Some 25882500, PIT = Some 967500, TotalInsurance = Some 3150000,
       TaxableIncome = Some 11450000, PreTaxIncome = Some 26850000, BHXH = Some 2400000,
       BHYT = Some 450000, BHTN = Some 300000, CalculationStatus = ''Success'',
       ErrorMessage = []\<rparr>"
    by (simp add: process_row_def try_row_def result_defs
        local_defs constant_defs PIT_BRACKETS_def py_round_def)
  have p1: "process_row NaNToInt 1 (\<lambda>c. if c = ''GrossIncome'' then Num 20000000
                    else if c = ''Dependents'' then Num 0 else Num 5) =
      \<lparr>NetIncome = None, PIT = None, TotalInsurance = None, TaxableIncome = None,
       PreTaxIncome = None, BHXH = None, BHYT = None, BHTN = None,
       CalculationStatus = ''Error'',
       ErrorMessage = ''ValueError - Invalid input value(s) in row.''\<rparr>"
    by (simp add: process_row_def try_row_def error_msg_nonempty error_message_InvalidRow)
  have p2: "process_row NaNToInt 2 (\<lambda>c. if c = ''GrossIncome'' then Num 50000000
                    else if c = ''Dependents'' then Num 2 else Num 2) =
      \<lparr>NetIncome = Some 41653200, PIT = Some 3400800, TotalInsurance = Some 4946000,
       TaxableIncome = Some 25254000, PreTaxIncome = Some 45054000, BHXH = Some 3744000,
       BHYT = Some 702000, BHTN = Some 500000, CalculationStatus = ''Success'',
       ErrorMessage = []\<rparr>"
    by (simp add: process_row_def try_row_def result_defs
        local_defs constant_defs PIT_BRACKETS_def py_round_def)
  have ev: "map_sum id (map snd) (process_batch NaNToInt example_with_bad_region) =
      Inr [\<lparr>NetIncome = Some 25882500, PIT = Some 967500, TotalInsurance = Some 3150000,
       TaxableIncome = Some 11450000, PreTaxIncome = Some 26850000, BHXH = Some 2400000,
       BHYT = Some 450000, BHTN = Some 300000, CalculationStatus = ''Success'',
       ErrorMessage = []\<rparr>,
       \<lparr>NetIncome = None, PIT = None, TotalInsurance = None, TaxableIncome = None,
       PreTaxIncome = None, BHXH = None, BHYT = None, BHTN = None,
       CalculationStatus = ''Error'',
       ErrorMessage = ''ValueError - Invalid input value(s) in row.''\<rparr>,
       \<lparr>NetIncome = Some 41653200, PIT = Some 3400800, TotalInsurance = Some 4946000,
       TaxableIncome = Some 25254000, PreTaxIncome = Some 45054000, BHXH = Some 3744000,
       BHYT = Some 702000, BHTN = Some 500000, CalculationStatus = ''Success'',
       ErrorMessage = []\<rparr>]"
    unfolding process_batch_def example_with_bad_region_def
    by (simp add: missing_cols_def EXPECTED_COLUMNS_def p0 p1 p2)
  from C10_batch_rows [OF c, of NaNToInt] obtain out where
    out: "process_batch NaNToInt example_with_bad_region = Inr out"
      "length out = length (rows example_with_bad_region)"
    by blast
  from ev out(1) have m: "map snd out = [\<lparr>NetIncome = Some 25882500, PIT = Some 967500, TotalInsurance = Some 3150000,
       TaxableIncome = Some 11450000, PreTaxIncome = Some 26850000, BHXH = Some 2400000,
       BHYT = Some 450000, BHTN = Some 300000, CalculationStatus = ''Success'',
       ErrorMessage = []\<rparr>,
       \<lparr>NetIncome = None, PIT = None, TotalInsurance = None, TaxableIncome = None,
       PreTaxIncome = None, BHXH = None, BHYT = None, BHTN = None,
       CalculationStatus = ''Error'',
       ErrorMessage = ''ValueError - Invalid input value(s) in row.''\<rparr>,
       \<lparr>NetIncome = Some 41653200, PIT = Some 3400800, TotalInsurance = Some 4946000,
       TaxableIncome = Some 25254000, PreTaxIncome = Some 45054000, BHXH = Some 3744000,
       BHYT = Some 702000, BHTN = Some 500000, CalculationStatus = ''Success'',
       ErrorMessage = []\<rparr>]" by simp
  have "map (CalculationStatus \<circ> snd) out = map CalculationStatus (map snd out)"
       "map (ErrorMessage \<circ> snd) out = map ErrorMessage (map snd out)"
       "map (NetIncome \<circ> snd) out = map NetIncome (map snd out)"
    by simp_all
  then have fields: "map (CalculationStatus \<circ> snd) out = [''Success'', ''Error'', ''Success'']"
       "map (ErrorMessage \<circ> snd) out =
          [[], ''ValueError - Invalid input value(s) in row.'', []]"
       "map (NetIncome \<circ> snd) out = [Some 25882500, None, Some 41653200]"
    unfolding m by simp_all
  show ?thesis by (intro conjI exI [of _ out]) (rule c out fields)+
qed

end
